theory Spec2Isabelle
  imports Main
begin

section \<open>The response buffer of irc/responsebuffer.go\<close>

text \<open>
  A shallow embedding of \<^verbatim>\<open>irc/responsebuffer.go\<close>. The Go struct
  \<^verbatim>\<open>ResponseBuffer\<close> becomes a record; every method becomes a function that
  takes the buffer and the state of its surroundings (the \<open>world\<close>: what the session
  was handed for transmission, what the logger received, the token generator) and returns
  both updated. Messages are values: every message the buffer builds itself starts from
  \<^verbatim>\<open>MakeMessage\<close>, which allocates its own tag map, and the queue is emptied by
  every flush, so no later call observes the tags a flush wrote into a queued message. A
  message the caller hands to \<^verbatim>\<open>AddMessage\<close> is taken with the tags it has at the
  call.
\<close>

subsection \<open>Messages\<close>

text \<open>
  Modelled from the spec: \<^verbatim>\<open>ircmsg.IrcMessage\<close> belongs to an external library and
  is absent from src. The spec describes it as a tag mapping with unique keys, a source
  string, a command string and an ordered parameter list, whose tags may be added or
  overwritten. A nil tag map is the empty map.
\<close>

record IrcMessage =
  tags :: "string \<rightharpoonup> string"
  Prefix :: string
  Command :: string
  Params :: "string list"

definition MakeMessage :: "(string \<rightharpoonup> string) \<Rightarrow> string \<Rightarrow> string \<Rightarrow> string list \<Rightarrow> IrcMessage" where
  "MakeMessage tgs prefix command params =
     \<lparr>tags = tgs, Prefix = prefix, Command = command, Params = params\<rparr>"

definition SetTag :: "IrcMessage \<Rightarrow> string \<Rightarrow> string \<Rightarrow> IrcMessage" where
  "SetTag msg tagName tagValue = msg\<lparr>tags := (tags msg)(tagName \<mapsto> tagValue)\<rparr>"

definition UpdateTags :: "IrcMessage \<Rightarrow> (string \<rightharpoonup> string) \<Rightarrow> IrcMessage" where
  "UpdateTags msg tgs = msg\<lparr>tags := tags msg ++ tgs\<rparr>"

definition HasTag :: "IrcMessage \<Rightarrow> string \<Rightarrow> bool" where
  "HasTag msg tagName = (tags msg tagName \<noteq> None)"

definition GetTag :: "IrcMessage \<Rightarrow> string \<Rightarrow> bool \<times> string" where
  "GetTag msg tagName =
     (case tags msg tagName of None \<Rightarrow> (False, []) | Some v \<Rightarrow> (True, v))"

text \<open>
  Modelled from the spec: the constant \<^verbatim>\<open>caps.LabelTagName\<close> is declared in the
  \<^verbatim>\<open>caps\<close> package, absent from src. The spec calls it the correlation/label tag
  and writes it \<^verbatim>\<open>label\<close> in its scenarios.
\<close>

definition LabelTagName :: string where
  "LabelTagName = ''label''"

definition defaultBatchType :: string where
  "defaultBatchType = ''draft/labeled-response''"

subsection \<open>Capabilities, clients and sessions\<close>

text \<open>
  Modelled from the spec: the capability set (\<^verbatim>\<open>caps.Set\<close>, absent from src) is a
  queryable set of feature flags; \<^verbatim>\<open>Has\<close> is membership. The flags are the ones
  the source file asks for.
\<close>

datatype Capability =
  LabeledResponse | MessageTags | AccountTag | MaxLine | EventPlayback | Batch | ServerTime

text \<open>An instant; \<open>0\<close> stands for Go's zero value \<^verbatim>\<open>time.Time{}\<close>.\<close>

type_synonym time = int

text \<open>
  Of \<^verbatim>\<open>Client\<close> and \<^verbatim>\<open>Server\<close> (declared elsewhere in the package) the file
  reads the server's name and the client's nick only.
\<close>

record Client =
  server_name :: string
  nick :: string

text \<open>
  Of \<^verbatim>\<open>Session\<close> the file reads the client, the capability set, and calls
  \<^verbatim>\<open>setTimeTag\<close> and \<^verbatim>\<open>SendRawMessage\<close>. The field \<open>time_policy\<close> is the
  parameter of the time-tag helper: the value of the time tag the session decides to
  attach to a message for a given instant, if any.
\<close>

record Session =
  client :: Client
  capabilities :: "Capability set"
  time_policy :: "IrcMessage \<Rightarrow> time \<Rightarrow> string option"

definition Has :: "Session \<Rightarrow> Capability \<Rightarrow> bool" where
  "Has s c = (c \<in> capabilities s)"

text \<open>
  Modelled from the spec: \<^verbatim>\<open>Session.setTimeTag\<close> is absent from src. The spec says
  the helper attaches the server-time tag, checks the capability itself, and that the
  session decides whether a time is attached at all. It writes no tag but \<^verbatim>\<open>time\<close>.
\<close>

definition setTimeTag :: "Session \<Rightarrow> IrcMessage \<Rightarrow> time \<Rightarrow> IrcMessage" where
  "setTimeTag s msg t =
     (if Has s ServerTime
      then (case time_policy s msg t of None \<Rightarrow> msg | Some v \<Rightarrow> SetTag msg ''time'' v)
      else msg)"

subsection \<open>The surroundings of a buffer\<close>

text \<open>
  The call site that hands a message to \<^verbatim>\<open>SendRawMessage\<close>: the batch-open framing
  of \<^verbatim>\<open>sendBatchStart\<close>, the batch-close framing of \<^verbatim>\<open>sendBatchEnd\<close>, the bare
  acknowledgement, or the loop over the queue. It is recorded with each transmission, so
  that the framing of the top-level batch can be told from a queued message that merely
  looks like it (the framing of a nested batch is a queued message).
\<close>

datatype SendSite = SiteBatchStart | SiteBatchEnd | SiteAck | SiteQueued

datatype Diagnostic = LogError string string | PrintStack

type_synonym error = string

text \<open>
  What the methods of the buffer act on besides the buffer: the messages handed to the
  session's \<^verbatim>\<open>SendRawMessage\<close>, each with its call site and blocking flag; the result
  \<^verbatim>\<open>SendRawMessage\<close> gives for its n-th call (a parameter: \<open>None\<close> is Go's nil
  error); what the server's logger and \<^verbatim>\<open>debug.PrintStack\<close> received; the tokens
  \<^verbatim>\<open>utils.GenerateSecretToken\<close> returns (a parameter) and how many were drawn; and
  what the client's other sessions were sent by \<^verbatim>\<open>Broadcast\<close>.
\<close>

record world =
  raw_sent :: "(SendSite \<times> IrcMessage \<times> bool) list"
  send_outcome :: "nat \<Rightarrow> error option"
  diagnostics :: "Diagnostic list"
  token_source :: "nat \<Rightarrow> string"
  tokens_drawn :: nat
  peers :: "IrcMessage list list"

text \<open>
  Modelled from the spec: \<^verbatim>\<open>Session.SendRawMessage\<close> is absent from src; the spec
  gives it as \<^verbatim>\<open>SendRawMessage(msg, blocking) -> error-or-nil\<close>.
\<close>

definition SendRawMessage :: "SendSite \<Rightarrow> IrcMessage \<Rightarrow> bool \<Rightarrow> world \<Rightarrow> error option \<times> world" where
  "SendRawMessage site msg blocking w =
     (send_outcome w (length (raw_sent w)),
      w\<lparr>raw_sent := raw_sent w @ [(site, msg, blocking)]\<rparr>)"

text \<open>
  Modelled from the spec: \<^verbatim>\<open>utils.GenerateSecretToken\<close> is absent from src; it
  produces string identifiers. Each call draws the next token of the source.
\<close>

definition GenerateSecretToken :: "world \<Rightarrow> string \<times> world" where
  "GenerateSecretToken w =
     (token_source w (tokens_drawn w), w\<lparr>tokens_drawn := Suc (tokens_drawn w)\<rparr>)"

definition logError :: "string \<Rightarrow> string \<Rightarrow> world \<Rightarrow> world" where
  "logError category line w =
     w\<lparr>diagnostics := diagnostics w @ [LogError category line, PrintStack]\<rparr>"

subsection \<open>The buffer\<close>

record ResponseBuffer =
  Label :: string
  batchID :: string
  batchType :: string
  nestedBatches :: "string list"
  messages :: "IrcMessage list"
  finalized :: bool
  target :: Client
  session :: Session

definition GetLabel :: "IrcMessage \<Rightarrow> string" where
  "GetLabel msg = snd (GetTag msg LabelTagName)"

definition NewResponseBuffer :: "Session \<Rightarrow> ResponseBuffer" where
  "NewResponseBuffer s =
     \<lparr>Label = [], batchID = [], batchType = defaultBatchType, nestedBatches = [],
      messages = [], finalized = False, target = client s, session = s\<rparr>"

text \<open>The top of the stack of nested batches is the last element of the slice.\<close>

definition AddMessage :: "ResponseBuffer \<Rightarrow> IrcMessage \<Rightarrow> world \<Rightarrow> ResponseBuffer \<times> world" where
  "AddMessage rb msg w =
     (if finalized rb
      then (rb, logError ''internal''
                  ''message added to finalized ResponseBuffer, undefined behavior'' w)
      else
        (let msg1 = (if 0 < length (nestedBatches rb)
                     then SetTag msg ''batch'' (last (nestedBatches rb)) else msg)
         in (rb\<lparr>messages := messages rb @ [msg1]\<rparr>, w)))"

definition Add :: "ResponseBuffer \<Rightarrow> (string \<rightharpoonup> string) \<Rightarrow> string \<Rightarrow> string \<Rightarrow> string list \<Rightarrow> world
    \<Rightarrow> ResponseBuffer \<times> world" where
  "Add rb tgs prefix command params w = AddMessage rb (MakeMessage tgs prefix command params) w"

text \<open>
  \<^verbatim>\<open>Broadcast\<close> queues the message and sends an unlabeled copy to every other session of
  the client. Modelled from the spec: the other sessions and their \<^verbatim>\<open>Send\<close> are absent
  from src; each receives an independent copy, bypassing the buffer.
\<close>

definition Broadcast :: "ResponseBuffer \<Rightarrow> (string \<rightharpoonup> string) \<Rightarrow> string \<Rightarrow> string \<Rightarrow> string list \<Rightarrow> world
    \<Rightarrow> ResponseBuffer \<times> world" where
  "Broadcast rb tgs prefix command params w =
     (case Add rb tgs prefix command params w of
        (rb1, w1) \<Rightarrow>
          (rb1, w1\<lparr>peers := map (\<lambda>l. l @ [MakeMessage tgs prefix command params]) (peers w1)\<rparr>))"

text \<open>
  The message \<^verbatim>\<open>AddFromClient\<close> builds before it hands it to \<^verbatim>\<open>AddMessage\<close>
  (the body of the method up to its last line).
\<close>

definition clientMessage :: "Session \<Rightarrow> time \<Rightarrow> string \<Rightarrow> string \<Rightarrow> string \<Rightarrow> (string \<rightharpoonup> string)
    \<Rightarrow> string \<Rightarrow> string list \<Rightarrow> IrcMessage" where
  "clientMessage s tm msgid fromNickMask fromAccount tgs command params =
     (let msg0 = MakeMessage Map.empty fromNickMask command params;
          msg1 = (if Has s MessageTags then UpdateTags msg0 tgs else msg0);
          msg2 = (if Has s AccountTag \<and> fromAccount \<noteq> ''*''
                  then SetTag msg1 ''account'' fromAccount else msg1);
          msg3 = (if 0 < length msgid \<and> Has s MessageTags
                  then SetTag msg2 ''msgid'' msgid else msg2)
      in setTimeTag s msg3 tm)"

definition AddFromClient :: "ResponseBuffer \<Rightarrow> time \<Rightarrow> string \<Rightarrow> string \<Rightarrow> string \<Rightarrow> (string \<rightharpoonup> string)
    \<Rightarrow> string \<Rightarrow> string list \<Rightarrow> world \<Rightarrow> ResponseBuffer \<times> world" where
  "AddFromClient rb tm msgid fromNickMask fromAccount tgs command params w =
     AddMessage rb
       (clientMessage (session rb) tm msgid fromNickMask fromAccount tgs command params) w"

text \<open>
  Of \<^verbatim>\<open>utils.SplitMessage\<close> and its fragments (\<^verbatim>\<open>MessagePair\<close>; both declared
  outside src) the file reads the fields below. \<^verbatim>\<open>Wrapped\<close> is a slice that may be
  nil: \<open>None\<close> is nil, \<open>Some []\<close> an empty slice that is not nil.
\<close>

record MessagePair =
  Message :: string
  Msgid :: string

record SplitMessage = MessagePair +
  Wrapped :: "MessagePair list option"
  Time :: time

definition AddSplitMessageFromClient :: "ResponseBuffer \<Rightarrow> string \<Rightarrow> string \<Rightarrow> (string \<rightharpoonup> string)
    \<Rightarrow> string \<Rightarrow> string \<Rightarrow> SplitMessage \<Rightarrow> world \<Rightarrow> ResponseBuffer \<times> world" where
  "AddSplitMessageFromClient rb fromNickMask fromAccount tgs command tgt message w =
     (if Has (session rb) MaxLine \<or> Wrapped message = None
      then AddFromClient rb (Time message) (Msgid message) fromNickMask fromAccount tgs command
             [tgt, Message message] w
      else
        foldl (\<lambda>(rb1, w1) messagePair.
                 AddFromClient rb1 (Time message) (Msgid messagePair) fromNickMask fromAccount
                   tgs command [tgt, Message messagePair] w1)
          (rb, w) (case Wrapped message of None \<Rightarrow> [] | Some pairs \<Rightarrow> pairs))"

definition sendBatchStart :: "ResponseBuffer \<Rightarrow> bool \<Rightarrow> world \<Rightarrow> ResponseBuffer \<times> world" where
  "sendBatchStart rb blocking w =
     (if batchID rb \<noteq> [] then (rb, w)
      else
        (case GenerateSecretToken w of
           (tok, w1) \<Rightarrow>
             (let rb1 = rb\<lparr>batchID := tok\<rparr>;
                  message0 = MakeMessage Map.empty (server_name (target rb1)) ''BATCH''
                               [''+'' @ batchID rb1, batchType rb1];
                  message1 = (if Label rb1 \<noteq> [] then SetTag message0 LabelTagName (Label rb1)
                              else message0)
              in (rb1, snd (SendRawMessage SiteBatchStart message1 blocking w1)))))"

definition ForceBatchStart :: "ResponseBuffer \<Rightarrow> string \<Rightarrow> bool \<Rightarrow> world \<Rightarrow> ResponseBuffer \<times> world" where
  "ForceBatchStart rb bType blocking w = sendBatchStart (rb\<lparr>batchType := bType\<rparr>) blocking w"

definition sendBatchEnd :: "ResponseBuffer \<Rightarrow> bool \<Rightarrow> world \<Rightarrow> ResponseBuffer \<times> world" where
  "sendBatchEnd rb blocking w =
     (if batchID rb = [] then (rb, w)
      else
        (let message = MakeMessage Map.empty (server_name (target rb)) ''BATCH''
                         [''-'' @ batchID rb]
         in (rb, snd (SendRawMessage SiteBatchEnd message blocking w))))"

definition StartNestedBatch :: "ResponseBuffer \<Rightarrow> string \<Rightarrow> string list \<Rightarrow> world
    \<Rightarrow> string \<times> ResponseBuffer \<times> world" where
  "StartNestedBatch rb bType params w =
     (case GenerateSecretToken w of
        (bID, w1) \<Rightarrow>
          (let msgParams = [''+'' @ bID, bType] @ params
           in (case AddMessage rb (MakeMessage Map.empty (server_name (target rb)) ''BATCH''
                                     msgParams) w1 of
                 (rb1, w2) \<Rightarrow> (bID, rb1\<lparr>nestedBatches := nestedBatches rb1 @ [bID]\<rparr>, w2))))"

definition EndNestedBatch :: "ResponseBuffer \<Rightarrow> string \<Rightarrow> world \<Rightarrow> ResponseBuffer \<times> world" where
  "EndNestedBatch rb bID w =
     (if bID = [] then (rb, w)
      else if 0 = length (nestedBatches rb) \<or> last (nestedBatches rb) \<noteq> bID
      then (rb, logError ''internal'' ''inconsistent batch nesting detected'' w)
      else AddMessage (rb\<lparr>nestedBatches := butlast (nestedBatches rb)\<rparr>)
             (MakeMessage Map.empty (server_name (target rb)) ''BATCH'' [''-'' @ bID]) w)"

definition StartNestedHistoryBatch :: "ResponseBuffer \<Rightarrow> string list \<Rightarrow> world
    \<Rightarrow> string \<times> ResponseBuffer \<times> world" where
  "StartNestedHistoryBatch rb params w =
     (let bType = (if Has (session rb) EventPlayback then ''history''
                   else if Has (session rb) Batch then ''chathistory'' else [])
      in if bType \<noteq> [] then StartNestedBatch rb bType params w else ([], rb, w))"

text \<open>The body of the loop of \<^verbatim>\<open>flushInternal\<close> over the queue, for one message.\<close>

definition prepareQueued :: "ResponseBuffer \<Rightarrow> IrcMessage \<Rightarrow> IrcMessage" where
  "prepareQueued rb message =
     (let message1 = setTimeTag (session rb) message 0
      in if batchID rb \<noteq> [] \<and> \<not> HasTag message1 ''batch''
         then SetTag message1 ''batch'' (batchID rb) else message1)"

definition sendQueued :: "ResponseBuffer \<Rightarrow> bool \<Rightarrow> world \<Rightarrow> IrcMessage \<Rightarrow> world" where
  "sendQueued rb blocking w message =
     snd (SendRawMessage SiteQueued (prepareQueued rb message) blocking w)"

definition flushInternal :: "ResponseBuffer \<Rightarrow> bool \<Rightarrow> bool \<Rightarrow> world
    \<Rightarrow> error option \<times> ResponseBuffer \<times> world" where
  "flushInternal rb final blocking w =
     (if finalized rb then (None, rb, w)
      else
        (let useLabel = (Has (session rb) LabeledResponse \<and> Label rb \<noteq> []);
             startBatch = (useLabel \<and> (1 < length (messages rb) \<or> \<not> final))
         in
           (case
              (if startBatch then sendBatchStart rb blocking w
               else if useLabel \<and> length (messages rb) = 0 \<and> batchID rb = [] \<and> final then
                 (let message0 = MakeMessage Map.empty (server_name (client (session rb)))
                                   ''ACK'' [];
                      message1 = SetTag message0 LabelTagName (Label rb);
                      message2 = setTimeTag (session rb) message1 0
                  in (rb, snd (SendRawMessage SiteAck message2 blocking w)))
               else if useLabel \<and> length (messages rb) = 1 \<and> batchID rb = [] \<and> final then
                 (rb\<lparr>messages := (messages rb)[0 := SetTag (messages rb ! 0) LabelTagName
                                                      (Label rb)]\<rparr>, w)
               else (rb, w))
            of (rb1, w1) \<Rightarrow>
              (let w2 = foldl (sendQueued rb1 blocking) w1 (messages rb1)
               in (case (if final
                         then (case sendBatchEnd rb1 blocking w2 of
                                 (rb2, w3) \<Rightarrow> (rb2\<lparr>finalized := True\<rparr>, w3))
                         else (rb1, w2))
                   of (rb3, w4) \<Rightarrow> (None, rb3\<lparr>messages := []\<rparr>, w4))))))"

definition Send :: "ResponseBuffer \<Rightarrow> bool \<Rightarrow> world \<Rightarrow> error option \<times> ResponseBuffer \<times> world" where
  "Send rb blocking w = flushInternal rb True blocking w"

definition Flush :: "ResponseBuffer \<Rightarrow> bool \<Rightarrow> world \<Rightarrow> error option \<times> ResponseBuffer \<times> world" where
  "Flush rb blocking w = flushInternal rb False blocking w"

definition Notice :: "ResponseBuffer \<Rightarrow> string \<Rightarrow> world \<Rightarrow> ResponseBuffer \<times> world" where
  "Notice rb text w =
     Add rb Map.empty (server_name (target rb)) ''NOTICE'' [nick (target rb), text] w"

subsection \<open>Sequences of calls\<close>

text \<open>
  What the rest of the package can do to a buffer: assign the exported field
  \<^verbatim>\<open>Label\<close>, and call the exported methods. The session is shared with the rest of
  the server, so its capability set may change between two calls.
\<close>

datatype Op =
    OpSetLabel string
  | OpSetCapabilities "Capability set"
  | OpAddMessage IrcMessage
  | OpAdd "string \<rightharpoonup> string" string string "string list"
  | OpBroadcast "string \<rightharpoonup> string" string string "string list"
  | OpAddFromClient time string string string "string \<rightharpoonup> string" string "string list"
  | OpAddSplitMessageFromClient string string "string \<rightharpoonup> string" string string SplitMessage
  | OpForceBatchStart string bool
  | OpStartNestedBatch string "string list"
  | OpEndNestedBatch string
  | OpStartNestedHistoryBatch "string list"
  | OpSend bool
  | OpFlush bool
  | OpNotice string

fun apply_op :: "Op \<Rightarrow> ResponseBuffer \<times> world \<Rightarrow> ResponseBuffer \<times> world" where
  "apply_op (OpSetLabel l) (rb, w) = (rb\<lparr>Label := l\<rparr>, w)"
| "apply_op (OpSetCapabilities cs) (rb, w) = (rb\<lparr>session := (session rb)\<lparr>capabilities := cs\<rparr>\<rparr>, w)"
| "apply_op (OpAddMessage msg) (rb, w) = AddMessage rb msg w"
| "apply_op (OpAdd tgs prefix command params) (rb, w) = Add rb tgs prefix command params w"
| "apply_op (OpBroadcast tgs prefix command params) (rb, w) = Broadcast rb tgs prefix command params w"
| "apply_op (OpAddFromClient tm msgid nickmask account tgs command params) (rb, w) =
     AddFromClient rb tm msgid nickmask account tgs command params w"
| "apply_op (OpAddSplitMessageFromClient nickmask account tgs command tgt message) (rb, w) =
     AddSplitMessageFromClient rb nickmask account tgs command tgt message w"
| "apply_op (OpForceBatchStart bType blocking) (rb, w) = ForceBatchStart rb bType blocking w"
| "apply_op (OpStartNestedBatch bType params) (rb, w) = snd (StartNestedBatch rb bType params w)"
| "apply_op (OpEndNestedBatch bID) (rb, w) = EndNestedBatch rb bID w"
| "apply_op (OpStartNestedHistoryBatch params) (rb, w) = snd (StartNestedHistoryBatch rb params w)"
| "apply_op (OpSend blocking) (rb, w) = snd (Send rb blocking w)"
| "apply_op (OpFlush blocking) (rb, w) = snd (Flush rb blocking w)"
| "apply_op (OpNotice text) (rb, w) = Notice rb text w"

fun run :: "Op list \<Rightarrow> ResponseBuffer \<times> world \<Rightarrow> ResponseBuffer \<times> world" where
  "run [] s = s"
| "run (op # ops) s = run ops (apply_op op s)"

text \<open>The number of batch-open framings of the top-level batch handed to the session.\<close>

definition opens :: "world \<Rightarrow> nat" where
  "opens w = length (filter (\<lambda>e. fst e = SiteBatchStart) (raw_sent w))"

definition closes :: "world \<Rightarrow> nat" where
  "closes w = length (filter (\<lambda>e. fst e = SiteBatchEnd) (raw_sent w))"

text \<open>The call is a terminal flush.\<close>

fun isSend :: "Op \<Rightarrow> bool" where
  "isSend (OpSend blocking) = True"
| "isSend _ = False"

text \<open>
  Two states agree on what concerns the top-level batch: its identifier, the finalized
  flag, the target, what was handed to the session, and the token generator.
\<close>

definition quiet :: "ResponseBuffer \<times> world \<Rightarrow> ResponseBuffer \<times> world \<Rightarrow> bool" where
  "quiet s t =
     (batchID (fst t) = batchID (fst s) \<and> finalized (fst t) = finalized (fst s) \<and>
      target (fst t) = target (fst s) \<and>
      raw_sent (snd t) = raw_sent (snd s) \<and> token_source (snd t) = token_source (snd s))"

subsection \<open>Concrete inputs\<close>

text \<open>
  A client, a session with a given capability set, a world in which nothing was sent yet,
  every transmission succeeds and the n-th token is \<^verbatim>\<open>tok\<close> followed by n letters
  \<^verbatim>\<open>x\<close>, and a message of another user. The session attaches no time tag for the zero
  instant and a tally of the instant otherwise.
\<close>

definition exClient :: Client where
  "exClient = \<lparr>server_name = ''irc.example.org'', nick = ''alice''\<rparr>"

definition exSession :: "Capability set \<Rightarrow> Session" where
  "exSession cs =
     \<lparr>client = exClient, capabilities = cs,
      time_policy = (\<lambda>m t. if t = 0 then None else Some (replicate (nat t) CHR ''I''))\<rparr>"

definition exWorld :: world where
  "exWorld =
     \<lparr>raw_sent = [], send_outcome = (\<lambda>n. None), diagnostics = [],
      token_source = (\<lambda>n. ''tok'' @ replicate n CHR ''x''), tokens_drawn = 0, peers = []\<rparr>"

definition exPrivmsg :: "string \<Rightarrow> IrcMessage" where
  "exPrivmsg text = MakeMessage Map.empty ''bob!b@host'' ''PRIVMSG'' [''#chan'', text]"

definition exSplit :: "time \<Rightarrow> SplitMessage" where
  "exSplit t =
     \<lparr>Message = ''hello world'', Msgid = ''whole'',
      Wrapped = Some [\<lparr>Message = ''hello '', Msgid = ''id1''\<rparr>,
                      \<lparr>Message = ''world'', Msgid = ''id2''\<rparr>],
      Time = t\<rparr>"

text \<open>
  Two buffers reached from a fresh one of a session with labeled-response, after the label
  \<^verbatim>\<open>abc\<close> was assigned: one holds a nested history batch with one message inside
  (three queued messages); the other was flushed once, which opened the top-level batch,
  and then received two messages.
\<close>

definition exNested :: "ResponseBuffer \<times> world" where
  "exNested =
     run [OpSetLabel ''abc'', OpStartNestedBatch ''history'' [''#chan''],
          OpAdd Map.empty ''bob!b@host'' ''PRIVMSG'' [''#chan'', ''hi''],
          OpEndNestedBatch ''tok'']
       (NewResponseBuffer (exSession {LabeledResponse}), exWorld)"

definition exFlushed :: "ResponseBuffer \<times> world" where
  "exFlushed =
     run [OpSetLabel ''abc'', OpFlush True,
          OpAdd Map.empty ''bob!b@host'' ''PRIVMSG'' [''#chan'', ''hi''],
          OpAdd Map.empty ''bob!b@host'' ''PRIVMSG'' [''#chan'', ''there'']]
       (NewResponseBuffer (exSession {LabeledResponse}), exWorld)"

section \<open>Auxiliary facts\<close>

lemma SetTag_simps:
  "tags (SetTag m k v) = (tags m)(k \<mapsto> v)"
  "Prefix (SetTag m k v) = Prefix m"
  "Command (SetTag m k v) = Command m"
  "Params (SetTag m k v) = Params m"
  by (simp_all add: SetTag_def)

lemma MakeMessage_simps:
  "tags (MakeMessage tg p c ps) = tg"
  "Prefix (MakeMessage tg p c ps) = p"
  "Command (MakeMessage tg p c ps) = c"
  "Params (MakeMessage tg p c ps) = ps"
  by (simp_all add: MakeMessage_def)

lemma setTimeTag_tags:
  "k \<noteq> ''time'' \<Longrightarrow> tags (setTimeTag s m t) k = tags m k"
  by (simp add: setTimeTag_def SetTag_def split: option.splits)

lemma setTimeTag_fields:
  "Prefix (setTimeTag s m t) = Prefix m"
  "Command (setTimeTag s m t) = Command m"
  "Params (setTimeTag s m t) = Params m"
  by (simp_all add: setTimeTag_def SetTag_def split: option.splits)

lemma AddMessage_eq:
  "AddMessage rb m w =
     (if finalized rb
      then (rb, w\<lparr>diagnostics := diagnostics w @
              [LogError ''internal'' ''message added to finalized ResponseBuffer, undefined behavior'',
               PrintStack]\<rparr>)
      else (rb\<lparr>messages := messages rb @
               [if nestedBatches rb = [] then m else SetTag m ''batch'' (last (nestedBatches rb))]\<rparr>, w))"
  by (simp add: AddMessage_def logError_def)

lemma foldl_sendQueued:
  "foldl (sendQueued rb b) w ms =
     w\<lparr>raw_sent := raw_sent w @ map (\<lambda>m. (SiteQueued, prepareQueued rb m, b)) ms\<rparr>"
  by (induction ms arbitrary: w) (simp_all add: sendQueued_def SendRawMessage_def)

lemma sendBatchStart_eq:
  "sendBatchStart rb b w =
     (if batchID rb \<noteq> [] then (rb, w)
      else (rb\<lparr>batchID := token_source w (tokens_drawn w)\<rparr>,
            w\<lparr>tokens_drawn := Suc (tokens_drawn w),
              raw_sent := raw_sent w @
                [(SiteBatchStart,
                  (if Label rb \<noteq> [] then
                     SetTag (MakeMessage Map.empty (server_name (target rb)) ''BATCH''
                       [''+'' @ token_source w (tokens_drawn w), batchType rb]) LabelTagName (Label rb)
                   else MakeMessage Map.empty (server_name (target rb)) ''BATCH''
                       [''+'' @ token_source w (tokens_drawn w), batchType rb]), b)]\<rparr>))"
  by (simp add: sendBatchStart_def GenerateSecretToken_def SendRawMessage_def Let_def)

lemma sendBatchEnd_eq:
  "sendBatchEnd rb b w =
     (if batchID rb = [] then (rb, w)
      else (rb, w\<lparr>raw_sent := raw_sent w @
                [(SiteBatchEnd, MakeMessage Map.empty (server_name (target rb)) ''BATCH''
                       [''-'' @ batchID rb], b)]\<rparr>))"
  by (simp add: sendBatchEnd_def SendRawMessage_def Let_def)

lemma clientMessage_account:
  "tags (clientMessage s tm msgid nickmask account tgs command params) ''account'' =
     (if Has s AccountTag \<and> account \<noteq> ''*'' then Some account
      else if Has s MessageTags then tgs ''account'' else None)"
  by (auto simp add: clientMessage_def Let_def setTimeTag_tags SetTag_simps MakeMessage_simps
      UpdateTags_def)

lemma clientMessage_msgid:
  "tags (clientMessage s tm msgid nickmask account tgs command params) ''msgid'' =
     (if msgid \<noteq> [] \<and> Has s MessageTags then Some msgid
      else if Has s MessageTags then tgs ''msgid'' else None)"
  by (auto simp add: clientMessage_def Let_def setTimeTag_tags SetTag_simps MakeMessage_simps
      UpdateTags_def)

lemma clientMessage_fields:
  "Prefix (clientMessage s tm msgid nickmask account tgs command params) = nickmask"
  "Command (clientMessage s tm msgid nickmask account tgs command params) = command"
  "Params (clientMessage s tm msgid nickmask account tgs command params) = params"
  by (simp_all add: clientMessage_def Let_def setTimeTag_fields SetTag_simps MakeMessage_simps
      UpdateTags_def)

lemma AddFromClient_live:
  "\<not> finalized rb \<Longrightarrow>
   AddFromClient rb tm msgid nickmask account tgs command params w =
     (rb\<lparr>messages := messages rb @
         [if nestedBatches rb = []
          then clientMessage (session rb) tm msgid nickmask account tgs command params
          else SetTag (clientMessage (session rb) tm msgid nickmask account tgs command params)
                 ''batch'' (last (nestedBatches rb))]\<rparr>, w)"
  by (simp add: AddFromClient_def AddMessage_eq)

lemma foldl_AddFromClient_live:
  "\<not> finalized rb \<Longrightarrow>
   foldl (\<lambda>(rb1, w1) messagePair.
            AddFromClient rb1 tm (Msgid messagePair) nickmask account tgs command
              [tgt, Message messagePair] w1) (rb, w) pairs =
     (rb\<lparr>messages := messages rb @
         map (\<lambda>p. if nestedBatches rb = []
                   then clientMessage (session rb) tm (Msgid p) nickmask account tgs command
                          [tgt, Message p]
                   else SetTag (clientMessage (session rb) tm (Msgid p) nickmask account tgs
                          command [tgt, Message p]) ''batch'' (last (nestedBatches rb))) pairs\<rparr>, w)"
proof (induction pairs arbitrary: rb)
  case Nil
  then show ?case by simp
next
  case (Cons p ps)
  let ?m = "if nestedBatches rb = []
            then clientMessage (session rb) tm (Msgid p) nickmask account tgs command
                   [tgt, Message p]
            else SetTag (clientMessage (session rb) tm (Msgid p) nickmask account tgs
                   command [tgt, Message p]) ''batch'' (last (nestedBatches rb))"
  let ?rb1 = "rb\<lparr>messages := messages rb @ [?m]\<rparr>"
  have step: "AddFromClient rb tm (Msgid p) nickmask account tgs command [tgt, Message p] w =
      (?rb1, w)"
    using Cons.prems by (simp add: AddFromClient_live)
  have live: "\<not> finalized ?rb1"
    using Cons.prems by simp
  have "foldl (\<lambda>(rb1, w1) messagePair.
            AddFromClient rb1 tm (Msgid messagePair) nickmask account tgs command
              [tgt, Message messagePair] w1) (rb, w) (p # ps) =
        foldl (\<lambda>(rb1, w1) messagePair.
            AddFromClient rb1 tm (Msgid messagePair) nickmask account tgs command
              [tgt, Message messagePair] w1) (?rb1, w) ps"
    by (simp only: foldl_Cons prod.case step)
  also have "\<dots> = (?rb1\<lparr>messages := messages ?rb1 @
         map (\<lambda>p. if nestedBatches ?rb1 = []
                   then clientMessage (session ?rb1) tm (Msgid p) nickmask account tgs command
                          [tgt, Message p]
                   else SetTag (clientMessage (session ?rb1) tm (Msgid p) nickmask account tgs
                          command [tgt, Message p]) ''batch'' (last (nestedBatches ?rb1))) ps\<rparr>, w)"
    by (rule Cons.IH [OF live])
  finally show ?case by simp
qed

lemma quiet_refl: "quiet s s"
  by (simp add: quiet_def)

lemma quiet_trans: "quiet s t \<Longrightarrow> quiet t u \<Longrightarrow> quiet s u"
  by (simp add: quiet_def)

lemma quiet_AddMessage: "quiet (rb, w) (AddMessage rb m w)"
  by (simp add: quiet_def AddMessage_eq)

lemma quiet_AddFromClient: "quiet (rb, w) (AddFromClient rb tm i n a tg c ps w)"
  by (simp add: AddFromClient_def quiet_AddMessage)

lemma quiet_foldl_AddFromClient:
  "quiet s (foldl (\<lambda>(rb1, w1) p. AddFromClient rb1 tm (Msgid p) n a tg c [tgt, Message p] w1) s pairs)"
proof (induction pairs arbitrary: s)
  case Nil
  show ?case by (simp add: quiet_refl)
next
  case (Cons p ps)
  obtain rb w where s: "s = (rb, w)" by (cases s)
  have "quiet s (AddFromClient rb tm (Msgid p) n a tg c [tgt, Message p] w)"
    by (simp add: s quiet_AddFromClient)
  then show ?case
    using Cons.IH [of "AddFromClient rb tm (Msgid p) n a tg c [tgt, Message p] w"]
    by (simp add: s) (rule quiet_trans)
qed

lemma quiet_AddSplitMessageFromClient:
  "quiet (rb, w) (AddSplitMessageFromClient rb n a tg c tgt message w)"
  by (simp add: AddSplitMessageFromClient_def quiet_AddFromClient quiet_foldl_AddFromClient)

lemma quiet_Add: "quiet (rb, w) (Add rb tg p c ps w)"
  by (simp add: Add_def quiet_AddMessage)

lemma quiet_Broadcast: "quiet (rb, w) (Broadcast rb tg p c ps w)"
  using quiet_Add [of rb w tg p c ps]
  by (simp add: Broadcast_def quiet_def split_beta)

lemma quiet_Notice: "quiet (rb, w) (Notice rb text w)"
  by (simp add: Notice_def quiet_Add)

lemma quiet_StartNestedBatch: "quiet (rb, w) (snd (StartNestedBatch rb bType ps w))"
  by (simp add: StartNestedBatch_def GenerateSecretToken_def AddMessage_eq quiet_def Let_def)

lemma quiet_StartNestedHistoryBatch: "quiet (rb, w) (snd (StartNestedHistoryBatch rb ps w))"
  by (simp add: StartNestedHistoryBatch_def Let_def quiet_StartNestedBatch quiet_refl)

lemma quiet_EndNestedBatch: "quiet (rb, w) (EndNestedBatch rb bID w)"
  by (simp add: EndNestedBatch_def AddMessage_eq logError_def quiet_def)

lemma opens_append:
  "opens (w\<lparr>raw_sent := raw_sent w @ es\<rparr>) = opens w + length (filter (\<lambda>e. fst e = SiteBatchStart) es)"
  by (simp add: opens_def)

lemma closes_append:
  "closes (w\<lparr>raw_sent := raw_sent w @ es\<rparr>) = closes w + length (filter (\<lambda>e. fst e = SiteBatchEnd) es)"
  by (simp add: closes_def)

lemma flushInternal_token_source:
  "token_source (snd (snd (flushInternal rb final blocking w))) = token_source w"
  by (simp add: flushInternal_def Let_def split_beta sendBatchStart_eq sendBatchEnd_eq
      foldl_sendQueued SendRawMessage_def)

lemma flushInternal_batch_open:
  "batchID rb \<noteq> [] \<Longrightarrow>
   batchID (fst (snd (flushInternal rb final blocking w))) = batchID rb \<and>
   opens (snd (snd (flushInternal rb final blocking w))) = opens w"
  by (simp add: flushInternal_def Let_def split_beta sendBatchStart_eq sendBatchEnd_eq
      foldl_sendQueued SendRawMessage_def opens_def)

lemma flushInternal_batch_closed:
  "batchID rb = [] \<Longrightarrow> token_source w (tokens_drawn w) \<noteq> [] \<Longrightarrow>
   opens (snd (snd (flushInternal rb final blocking w))) =
     opens w + (if batchID (fst (snd (flushInternal rb final blocking w))) = [] then 0 else 1)"
  by (simp add: flushInternal_def Let_def split_beta sendBatchStart_eq sendBatchEnd_eq
      foldl_sendQueued SendRawMessage_def opens_def)

lemma ForceBatchStart_batch:
  "token_source (snd (ForceBatchStart rb bType blocking w)) = token_source w"
  "batchID rb \<noteq> [] \<Longrightarrow>
     batchID (fst (ForceBatchStart rb bType blocking w)) = batchID rb \<and>
     opens (snd (ForceBatchStart rb bType blocking w)) = opens w"
  "batchID rb = [] \<Longrightarrow> token_source w (tokens_drawn w) \<noteq> [] \<Longrightarrow>
     opens (snd (ForceBatchStart rb bType blocking w)) =
       opens w + (if batchID (fst (ForceBatchStart rb bType blocking w)) = [] then 0 else 1)"
  by (simp_all add: ForceBatchStart_def sendBatchStart_eq opens_def)

lemma quiet_batch:
  assumes "quiet s t"
  shows "token_source (snd t) = token_source (snd s)"
    and "batchID (fst t) = batchID (fst s)"
    and "opens (snd t) = opens (snd s)"
    and "closes (snd t) = closes (snd s)"
    and "finalized (fst t) = finalized (fst s)"
    and "target (fst t) = target (fst s)"
  using assms by (simp_all add: quiet_def opens_def closes_def)

lemma apply_op_cases:
  "quiet s (apply_op op s) \<or>
   (\<exists>bType blocking. apply_op op s = ForceBatchStart (fst s) bType blocking (snd s)) \<or>
   (\<exists>blocking. apply_op op s = snd (flushInternal (fst s) False blocking (snd s))) \<or>
   (isSend op \<and> (\<exists>blocking. apply_op op s = snd (flushInternal (fst s) True blocking (snd s))))"
proof -
  obtain rb w where s: "s = (rb, w)" by (cases s)
  show ?thesis
  proof (cases op)
    case (OpSetLabel l) then show ?thesis by (simp add: s quiet_def)
  next
    case (OpSetCapabilities cs) then show ?thesis by (simp add: s quiet_def)
  next
    case (OpAddMessage m) then show ?thesis by (simp add: s quiet_AddMessage)
  next
    case (OpAdd tg p c ps) then show ?thesis by (simp add: s quiet_Add)
  next
    case (OpBroadcast tg p c ps) then show ?thesis by (simp add: s quiet_Broadcast)
  next
    case (OpAddFromClient tm i n a tg c ps) then show ?thesis by (simp add: s quiet_AddFromClient)
  next
    case (OpAddSplitMessageFromClient n a tg c tgt message)
    then show ?thesis by (simp add: s quiet_AddSplitMessageFromClient)
  next
    case (OpForceBatchStart bType blocking) then show ?thesis by (auto simp add: s)
  next
    case (OpStartNestedBatch bType ps) then show ?thesis by (simp add: s quiet_StartNestedBatch)
  next
    case (OpEndNestedBatch bID) then show ?thesis by (simp add: s quiet_EndNestedBatch)
  next
    case (OpStartNestedHistoryBatch ps)
    then show ?thesis by (simp add: s quiet_StartNestedHistoryBatch)
  next
    case (OpSend blocking) then show ?thesis by (auto simp add: s Send_def)
  next
    case (OpFlush blocking) then show ?thesis by (auto simp add: s Flush_def)
  next
    case (OpNotice line) then show ?thesis by (simp add: s quiet_Notice)
  qed
qed

lemma apply_op_token_source: "token_source (snd (apply_op op s)) = token_source (snd s)"
  using apply_op_cases [of s op]
  by (auto simp add: quiet_batch ForceBatchStart_batch flushInternal_token_source)

lemma apply_op_batch_open:
  "batchID (fst s) \<noteq> [] \<Longrightarrow>
   batchID (fst (apply_op op s)) = batchID (fst s) \<and> opens (snd (apply_op op s)) = opens (snd s)"
  using apply_op_cases [of s op]
  by (auto simp add: quiet_batch ForceBatchStart_batch flushInternal_batch_open)

lemma apply_op_batch_closed:
  "batchID (fst s) = [] \<Longrightarrow> token_source (snd s) (tokens_drawn (snd s)) \<noteq> [] \<Longrightarrow>
   opens (snd (apply_op op s)) =
     opens (snd s) + (if batchID (fst (apply_op op s)) = [] then 0 else 1)"
  using apply_op_cases [of s op]
  by (auto simp add: quiet_batch ForceBatchStart_batch flushInternal_batch_closed)

lemma run_token_source: "token_source (snd (run ops s)) = token_source (snd s)"
  by (induction ops arbitrary: s) (simp_all add: apply_op_token_source)

lemma run_batch_open:
  "batchID (fst s) \<noteq> [] \<Longrightarrow>
   batchID (fst (run ops s)) = batchID (fst s) \<and> opens (snd (run ops s)) = opens (snd s)"
proof (induction ops arbitrary: s)
  case Nil
  show ?case by simp
next
  case (Cons op ops)
  have 1: "batchID (fst (apply_op op s)) = batchID (fst s)" "opens (snd (apply_op op s)) = opens (snd s)"
    using apply_op_batch_open [OF Cons.prems] by simp_all
  with Cons.prems have "batchID (fst (apply_op op s)) \<noteq> []" by simp
  from Cons.IH [OF this] show ?case by (simp add: 1)
qed

lemma run_batch_closed:
  "batchID (fst s) = [] \<Longrightarrow> \<forall>n. token_source (snd s) n \<noteq> [] \<Longrightarrow>
   opens (snd (run ops s)) = opens (snd s) + (if batchID (fst (run ops s)) = [] then 0 else 1)"
proof (induction ops arbitrary: s)
  case Nil
  then show ?case by simp
next
  case (Cons op ops)
  let ?t = "apply_op op s"
  have tok: "\<forall>n. token_source (snd ?t) n \<noteq> []"
    using Cons.prems(2) by (simp add: apply_op_token_source)
  have step: "opens (snd ?t) = opens (snd s) + (if batchID (fst ?t) = [] then 0 else 1)"
    using apply_op_batch_closed [OF Cons.prems(1)] Cons.prems(2) by simp
  show ?case
  proof (cases "batchID (fst ?t) = []")
    case True
    from Cons.IH [OF True tok] step True show ?thesis by simp
  next
    case False
    from run_batch_open [OF False, of ops] step False show ?thesis by simp
  qed
qed










text \<open>The equations that evaluate a run on a concrete input.\<close>

lemmas eval_defs = Send_def Flush_def flushInternal_def Let_def split_beta sendBatchStart_eq
  sendBatchEnd_eq foldl_sendQueued SendRawMessage_def ForceBatchStart_def Add_def AddMessage_eq
  NewResponseBuffer_def exWorld_def exSession_def exClient_def Has_def opens_def closes_def
  MakeMessage_def SetTag_def defaultBatchType_def prepareQueued_def setTimeTag_def HasTag_def
  LabelTagName_def

lemmas eval_defs2 = eval_defs StartNestedBatch_def EndNestedBatch_def GenerateSecretToken_def
  AddMessage_def logError_def

lemma prepareQueued_batch:
  "batchID rb \<noteq> [] \<Longrightarrow>
   tags (prepareQueued rb m) ''batch'' =
     (case tags m ''batch'' of None \<Rightarrow> Some (batchID rb) | Some nb \<Rightarrow> Some nb)"
  by (simp add: prepareQueued_def Let_def HasTag_def SetTag_simps setTimeTag_tags
      split: option.splits)

lemma prepareQueued_label:
  "tags (prepareQueued rb m) LabelTagName = tags m LabelTagName"
  by (simp add: prepareQueued_def Let_def SetTag_simps setTimeTag_tags LabelTagName_def)

lemma prepareQueued_no_batch:
  "batchID rb = [] \<Longrightarrow> prepareQueued rb m = setTimeTag (session rb) m 0"
  by (simp add: prepareQueued_def Let_def)

lemma prepareQueued_cong:
  "prepareQueued (rb\<lparr>finalized := f, messages := ms\<rparr>) = prepareQueued rb"
  "prepareQueued (rb\<lparr>batchID := batchID rb\<rparr>) = prepareQueued rb"
  by (simp_all add: prepareQueued_def fun_eq_iff Let_def)

lemma Send_ack:
  "\<not> finalized rb \<Longrightarrow> Has (session rb) LabeledResponse \<Longrightarrow> Label rb \<noteq> [] \<Longrightarrow>
   messages rb = [] \<Longrightarrow> batchID rb = [] \<Longrightarrow>
   Send rb blocking w =
     (None, rb\<lparr>finalized := True, messages := []\<rparr>,
      w\<lparr>raw_sent := raw_sent w @
          [(SiteAck,
            setTimeTag (session rb)
              (SetTag (MakeMessage Map.empty (server_name (client (session rb))) ''ACK'' [])
                 LabelTagName (Label rb)) 0,
            blocking)]\<rparr>)"
  by (simp add: Send_def flushInternal_def Let_def sendBatchEnd_eq SendRawMessage_def)

lemma Send_single:
  "\<not> finalized rb \<Longrightarrow> Has (session rb) LabeledResponse \<Longrightarrow> Label rb \<noteq> [] \<Longrightarrow>
   messages rb = [m] \<Longrightarrow> batchID rb = [] \<Longrightarrow>
   Send rb blocking w =
     (None, rb\<lparr>finalized := True, messages := []\<rparr>,
      w\<lparr>raw_sent := raw_sent w @
          [(SiteQueued, setTimeTag (session rb) (SetTag m LabelTagName (Label rb)) 0,
            blocking)]\<rparr>)"
  by (simp add: Send_def flushInternal_def Let_def sendBatchEnd_eq foldl_sendQueued
      prepareQueued_no_batch)

lemma Send_batch:
  "\<not> finalized rb \<Longrightarrow> Has (session rb) LabeledResponse \<Longrightarrow> Label rb \<noteq> [] \<Longrightarrow>
   2 \<le> length (messages rb) \<Longrightarrow>
   Send rb blocking w =
     (if batchID rb \<noteq> [] then
        (None, rb\<lparr>finalized := True, messages := []\<rparr>,
         w\<lparr>raw_sent := raw_sent w @
             map (\<lambda>m. (SiteQueued, prepareQueued rb m, blocking)) (messages rb) @
             [(SiteBatchEnd,
               MakeMessage Map.empty (server_name (target rb)) ''BATCH'' [''-'' @ batchID rb],
               blocking)]\<rparr>)
      else
        (None, rb\<lparr>batchID := token_source w (tokens_drawn w), finalized := True, messages := []\<rparr>,
         w\<lparr>tokens_drawn := Suc (tokens_drawn w),
           raw_sent := raw_sent w @
             [(SiteBatchStart,
               SetTag (MakeMessage Map.empty (server_name (target rb)) ''BATCH''
                         [''+'' @ token_source w (tokens_drawn w), batchType rb])
                 LabelTagName (Label rb),
               blocking)] @
             map (\<lambda>m. (SiteQueued,
                        prepareQueued (rb\<lparr>batchID := token_source w (tokens_drawn w)\<rparr>) m, blocking))
               (messages rb) @
             (if token_source w (tokens_drawn w) = [] then []
              else [(SiteBatchEnd,
                     MakeMessage Map.empty (server_name (target rb)) ''BATCH''
                       [''-'' @ token_source w (tokens_drawn w)],
                     blocking)])\<rparr>))"
  by (simp add: Send_def flushInternal_def Let_def sendBatchStart_eq sendBatchEnd_eq
      foldl_sendQueued)

lemma prepareQueued_fields:
  "Prefix (prepareQueued rb m) = Prefix m"
  "Command (prepareQueued rb m) = Command m"
  "Params (prepareQueued rb m) = Params m"
  by (simp_all add: prepareQueued_def Let_def SetTag_simps setTimeTag_fields)

section \<open>Enqueueing into a finalized buffer\<close>

text \<open>
  Claim C4. On a finalized buffer \<^verbatim>\<open>AddMessage\<close> returns normally, with the buffer
  exactly as it was (the queue included); the only effect is the internal error the logger
  receives, with its stack trace. Nothing was appended and nothing was sent.
\<close>

theorem AddMessage_finalized_rejects:
  "finalized rb \<Longrightarrow>
   AddMessage rb msg w =
     (rb, w\<lparr>diagnostics := diagnostics w @
            [LogError ''internal''
               ''message added to finalized ResponseBuffer, undefined behavior'',
             PrintStack]\<rparr>)"
  by (simp add: AddMessage_def logError_def)

theorem AddMessage_finalized_rejects_witness:
  "finalized ((NewResponseBuffer (exSession {}))\<lparr>finalized := True\<rparr>) \<and>
   AddMessage ((NewResponseBuffer (exSession {}))\<lparr>finalized := True\<rparr>) (exPrivmsg ''hi'') exWorld =
     ((NewResponseBuffer (exSession {}))\<lparr>finalized := True\<rparr>,
      exWorld\<lparr>diagnostics :=
            [LogError ''internal''
               ''message added to finalized ResponseBuffer, undefined behavior'',
             PrintStack]\<rparr>)"
  using AddMessage_finalized_rejects
    [of "(NewResponseBuffer (exSession {}))\<lparr>finalized := True\<rparr>" "exPrivmsg ''hi''" exWorld]
  by (simp add: exWorld_def)

section \<open>Closing a nested batch that is not the innermost one\<close>

text \<open>
  Claim C5. For a non-empty identifier, \<^verbatim>\<open>EndNestedBatch\<close> on an empty stack, or on
  a stack whose top is another identifier, returns the buffer unchanged (nothing popped,
  nothing queued) and only reports an internal error; with the empty identifier it changes
  nothing at all.
\<close>

theorem EndNestedBatch_mismatch_keeps_state:
  "(bID \<noteq> [] \<and> (nestedBatches rb = [] \<or> last (nestedBatches rb) \<noteq> bID) \<longrightarrow>
      EndNestedBatch rb bID w =
        (rb, w\<lparr>diagnostics := diagnostics w @
               [LogError ''internal'' ''inconsistent batch nesting detected'', PrintStack]\<rparr>))
   \<and> EndNestedBatch rb [] w = (rb, w)"
  by (auto simp add: EndNestedBatch_def logError_def)

theorem EndNestedBatch_mismatch_keeps_state_witness:
  "EndNestedBatch ((NewResponseBuffer (exSession {}))\<lparr>nestedBatches := [''tok'']\<rparr>) ''other'' exWorld =
     ((NewResponseBuffer (exSession {}))\<lparr>nestedBatches := [''tok'']\<rparr>,
      exWorld\<lparr>diagnostics :=
            [LogError ''internal'' ''inconsistent batch nesting detected'', PrintStack]\<rparr>)
   \<and> EndNestedBatch (NewResponseBuffer (exSession {})) ''other'' exWorld =
     (NewResponseBuffer (exSession {}),
      exWorld\<lparr>diagnostics :=
            [LogError ''internal'' ''inconsistent batch nesting detected'', PrintStack]\<rparr>)
   \<and> EndNestedBatch ((NewResponseBuffer (exSession {}))\<lparr>nestedBatches := [''tok'']\<rparr>) [] exWorld =
     ((NewResponseBuffer (exSession {}))\<lparr>nestedBatches := [''tok'']\<rparr>, exWorld)"
  using EndNestedBatch_mismatch_keeps_state
      [of "''other''" "(NewResponseBuffer (exSession {}))\<lparr>nestedBatches := [''tok'']\<rparr>" exWorld]
    EndNestedBatch_mismatch_keeps_state
      [of "''other''" "NewResponseBuffer (exSession {})" exWorld]
    EndNestedBatch_mismatch_keeps_state
      [of "[]" "(NewResponseBuffer (exSession {}))\<lparr>nestedBatches := [''tok'']\<rparr>" exWorld]
  by (simp add: exWorld_def NewResponseBuffer_def)

section \<open>The tag of a nested batch's opening message\<close>



section \<open>What a flush returns\<close>

text \<open>
  Claim C2 says that an error returned by \<^verbatim>\<open>SendRawMessage\<close> during a flush is
  returned to the caller. The code discards the result of every call of
  \<^verbatim>\<open>SendRawMessage\<close> (in the loop, for the acknowledgement, and in
  \<^verbatim>\<open>sendBatchStart\<close> and \<^verbatim>\<open>sendBatchEnd\<close>, which return nothing). In a world
  where every transmission fails with \<^verbatim>\<open>write: broken pipe\<close>, a flush of one queued
  message hands the message to the session, whose call returns the error, and the flush
  returns nil all the same.
\<close>

theorem flush_discards_transmission_error:
  "fst (SendRawMessage SiteQueued
          (prepareQueued ((NewResponseBuffer (exSession {}))\<lparr>messages := [exPrivmsg ''hi'']\<rparr>)
             (exPrivmsg ''hi''))
          True (exWorld\<lparr>send_outcome := (\<lambda>n. Some ''write: broken pipe'')\<rparr>))
     = Some ''write: broken pipe'' \<and>
   map fst (raw_sent (snd (snd (Flush ((NewResponseBuffer (exSession {}))\<lparr>messages := [exPrivmsg ''hi'']\<rparr>)
      True (exWorld\<lparr>send_outcome := (\<lambda>n. Some ''write: broken pipe'')\<rparr>))))) = [SiteQueued] \<and>
   fst (Flush ((NewResponseBuffer (exSession {}))\<lparr>messages := [exPrivmsg ''hi'']\<rparr>)
      True (exWorld\<lparr>send_outcome := (\<lambda>n. Some ''write: broken pipe'')\<rparr>)) \<noteq> Some ''write: broken pipe'' \<and>
   fst (Send ((NewResponseBuffer (exSession {}))\<lparr>messages := [exPrivmsg ''hi'']\<rparr>)
      True (exWorld\<lparr>send_outcome := (\<lambda>n. Some ''write: broken pipe'')\<rparr>)) \<noteq> Some ''write: broken pipe''"
  by (simp add: Send_def Flush_def flushInternal_def Let_def split_beta foldl_sendQueued
      sendBatchEnd_eq SendRawMessage_def NewResponseBuffer_def exWorld_def Has_def exSession_def)

text \<open>
  Claim C2, as amended: every flush, terminal or not, finalized buffer or not, returns nil,
  whatever the session returns for the transmissions.
\<close>

theorem flushInternal_always_returns_nil:
  "fst (flushInternal rb final blocking w) = None \<and>
   fst (Send rb blocking w) = None \<and> fst (Flush rb blocking w) = None"
  by (simp add: Send_def Flush_def flushInternal_def Let_def split_beta)

section \<open>The tags of a message relayed from another client\<close>

text \<open>
  Claim C8 says that \<^verbatim>\<open>AddFromClient\<close> attaches the account tag exactly when the
  session advertises the account-tag capability, and the message-id tag exactly when it
  advertises message-tags. The code has a second guard on each: the account
  \<^verbatim>\<open>*\<close> (nobody is logged in) and the empty message id are never attached. A session
  with both capabilities gets neither tag for a message of a logged-out sender without id.
\<close>

theorem AddFromClient_tags_not_gated_by_capability_alone:
  "Has (exSession {AccountTag, MessageTags}) AccountTag \<and>
   Has (exSession {AccountTag, MessageTags}) MessageTags \<and>
   length (messages (fst (AddFromClient (NewResponseBuffer (exSession {AccountTag, MessageTags}))
      5 [] ''bob!b@host'' ''*'' Map.empty ''PRIVMSG'' [''#chan'', ''hi''] exWorld))) = 1 \<and>
   tags (last (messages (fst (AddFromClient (NewResponseBuffer (exSession {AccountTag, MessageTags}))
      5 [] ''bob!b@host'' ''*'' Map.empty ''PRIVMSG'' [''#chan'', ''hi''] exWorld)))) ''account'' = None \<and>
   tags (last (messages (fst (AddFromClient (NewResponseBuffer (exSession {AccountTag, MessageTags}))
      5 [] ''bob!b@host'' ''*'' Map.empty ''PRIVMSG'' [''#chan'', ''hi''] exWorld)))) ''msgid'' = None"
  by (simp add: AddFromClient_live clientMessage_account clientMessage_msgid NewResponseBuffer_def
      Has_def exSession_def)


text \<open>
  Claim C8, as amended: on a buffer that is not finalized, \<^verbatim>\<open>AddFromClient\<close> queues one
  message; it sets the account tag to the sender's account exactly when the session
  advertises account-tag and the account is not \<^verbatim>\<open>*\<close>, and the message-id tag to the
  given id exactly when the session advertises message-tags and the id is not empty.
  Where it sets none, the message has the tag only if the caller's tag map had it and the
  session advertises message-tags.
\<close>

theorem AddFromClient_account_and_msgid_tags:
  assumes "\<not> finalized rb"
  shows
    "messages (fst (AddFromClient rb tm msgid nickmask account tgs command params w)) =
       messages rb @
         [last (messages (fst (AddFromClient rb tm msgid nickmask account tgs command params w)))] \<and>
     tags (last (messages (fst (AddFromClient rb tm msgid nickmask account tgs command params w))))
         ''account'' =
       (if Has (session rb) AccountTag \<and> account \<noteq> ''*'' then Some account
        else if Has (session rb) MessageTags then tgs ''account'' else None) \<and>
     tags (last (messages (fst (AddFromClient rb tm msgid nickmask account tgs command params w))))
         ''msgid'' =
       (if msgid \<noteq> [] \<and> Has (session rb) MessageTags then Some msgid
        else if Has (session rb) MessageTags then tgs ''msgid'' else None)"
  using assms
  by (simp add: AddFromClient_live clientMessage_account clientMessage_msgid SetTag_simps)

theorem AddFromClient_account_and_msgid_tags_witness:
  "\<not> finalized (NewResponseBuffer (exSession {AccountTag, MessageTags})) \<and>
   tags (last (messages (fst (AddFromClient (NewResponseBuffer (exSession {AccountTag, MessageTags}))
      5 ''id7'' ''bob!b@host'' ''bob'' Map.empty ''PRIVMSG'' [''#chan'', ''hi''] exWorld)))) ''account''
     = Some ''bob'' \<and>
   tags (last (messages (fst (AddFromClient (NewResponseBuffer (exSession {AccountTag, MessageTags}))
      5 ''id7'' ''bob!b@host'' ''bob'' Map.empty ''PRIVMSG'' [''#chan'', ''hi''] exWorld)))) ''msgid''
     = Some ''id7''"
  using AddFromClient_account_and_msgid_tags
    [of "NewResponseBuffer (exSession {AccountTag, MessageTags})" 5 "''id7''" "''bob!b@host''"
        "''bob''" Map.empty "''PRIVMSG''" "[''#chan'', ''hi'']" exWorld]
  by (simp add: NewResponseBuffer_def Has_def exSession_def)

section \<open>Relaying a split message\<close>

text \<open>
  Claim C9 says that \<^verbatim>\<open>AddSplitMessageFromClient\<close> queues exactly one message when the
  session supports long lines or the input was not split, and otherwise one message per
  fragment, each with the fragment's own message id and own timestamp. Three things differ
  in the code. A finalized buffer queues nothing. The message id of a fragment is attached
  only under the guards of \<^verbatim>\<open>AddFromClient\<close>: a session without message-tags gets
  two fragments without id. And a fragment has no timestamp: every fragment is given the
  \<^verbatim>\<open>Time\<close> of the whole split message, so the same fragments carry another time tag
  when only that field differs.
\<close>

theorem AddSplitMessageFromClient_not_per_fragment:
  "messages (fst (AddSplitMessageFromClient
       ((NewResponseBuffer (exSession {MaxLine}))\<lparr>finalized := True\<rparr>)
       ''bob!b@host'' ''bob'' Map.empty ''PRIVMSG'' ''#chan'' (exSplit 1) exWorld)) = [] \<and>
   \<not> Has (exSession {}) MaxLine \<and> Wrapped (exSplit 1) \<noteq> None \<and>
   map (\<lambda>m. tags m ''msgid'')
     (messages (fst (AddSplitMessageFromClient (NewResponseBuffer (exSession {}))
        ''bob!b@host'' ''bob'' Map.empty ''PRIVMSG'' ''#chan'' (exSplit 1) exWorld))) =
     [None, None] \<and>
   Wrapped (exSplit 1) = Wrapped (exSplit 2) \<and>
   map (\<lambda>m. tags m ''time'')
     (messages (fst (AddSplitMessageFromClient (NewResponseBuffer (exSession {ServerTime}))
        ''bob!b@host'' ''bob'' Map.empty ''PRIVMSG'' ''#chan'' (exSplit 1) exWorld))) =
     [Some ''I'', Some ''I''] \<and>
   map (\<lambda>m. tags m ''time'')
     (messages (fst (AddSplitMessageFromClient (NewResponseBuffer (exSession {ServerTime}))
        ''bob!b@host'' ''bob'' Map.empty ''PRIVMSG'' ''#chan'' (exSplit 2) exWorld))) =
     [Some ''II'', Some ''II'']"
  by (simp add: AddSplitMessageFromClient_def AddFromClient_def AddMessage_eq
      NewResponseBuffer_def Has_def exSession_def exSplit_def clientMessage_def Let_def
      setTimeTag_def SetTag_simps MakeMessage_simps numeral_2_eq_2)

text \<open>
  Claim C9, as amended: on a buffer that is not finalized, when the session supports long
  lines or \<^verbatim>\<open>Wrapped\<close> is nil, exactly the one message that \<^verbatim>\<open>AddFromClient\<close>
  builds from the unsplit text, its message id and its time is queued; otherwise one message
  per fragment is queued, in order, each built by \<^verbatim>\<open>AddFromClient\<close> from the
  fragment's text, the fragment's message id and the time of the whole split message. The
  message id is attached as a tag when it is not empty and the session advertises
  message-tags.
\<close>

theorem AddSplitMessageFromClient_queue:
  assumes "\<not> finalized rb"
  shows
    "(Has (session rb) MaxLine \<or> Wrapped message = None \<longrightarrow>
        AddSplitMessageFromClient rb nickmask account tgs command tgt message w =
          (rb\<lparr>messages := messages rb @
              [if nestedBatches rb = []
               then clientMessage (session rb) (Time message) (Msgid message) nickmask account
                      tgs command [tgt, Message message]
               else SetTag (clientMessage (session rb) (Time message) (Msgid message) nickmask
                      account tgs command [tgt, Message message])
                      ''batch'' (last (nestedBatches rb))]\<rparr>, w)) \<and>
     (\<not> Has (session rb) MaxLine \<and> Wrapped message = Some pairs \<longrightarrow>
        AddSplitMessageFromClient rb nickmask account tgs command tgt message w =
          (rb\<lparr>messages := messages rb @
              map (\<lambda>p. if nestedBatches rb = []
                        then clientMessage (session rb) (Time message) (Msgid p) nickmask account
                               tgs command [tgt, Message p]
                        else SetTag (clientMessage (session rb) (Time message) (Msgid p) nickmask
                               account tgs command [tgt, Message p])
                               ''batch'' (last (nestedBatches rb))) pairs\<rparr>, w)) \<and>
     (\<forall>tm p. tags (clientMessage (session rb) tm (Msgid p) nickmask account tgs command
                  [tgt, Message p]) ''msgid'' =
              (if Msgid p \<noteq> [] \<and> Has (session rb) MessageTags then Some (Msgid p)
               else if Has (session rb) MessageTags then tgs ''msgid'' else None))"
  using assms
  by (auto simp add: AddSplitMessageFromClient_def foldl_AddFromClient_live AddFromClient_live
      clientMessage_msgid)

theorem AddSplitMessageFromClient_queue_witness:
  "\<not> finalized (NewResponseBuffer (exSession {MessageTags})) \<and>
   \<not> Has (session (NewResponseBuffer (exSession {MessageTags}))) MaxLine \<and>
   map (\<lambda>m. (Params m, tags m ''msgid''))
     (messages (fst (AddSplitMessageFromClient (NewResponseBuffer (exSession {MessageTags}))
        ''bob!b@host'' ''bob'' Map.empty ''PRIVMSG'' ''#chan'' (exSplit 3) exWorld))) =
     [([''#chan'', ''hello ''], Some ''id1''), ([''#chan'', ''world''], Some ''id2'')] \<and>
   Has (session (NewResponseBuffer (exSession {MessageTags, MaxLine}))) MaxLine \<and>
   map (\<lambda>m. (Params m, tags m ''msgid''))
     (messages (fst (AddSplitMessageFromClient (NewResponseBuffer (exSession {MessageTags, MaxLine}))
        ''bob!b@host'' ''bob'' Map.empty ''PRIVMSG'' ''#chan'' (exSplit 3) exWorld))) =
     [([''#chan'', ''hello world''], Some ''whole'')]"
proof -
  let ?rb = "NewResponseBuffer (exSession {MessageTags})"
  let ?rbm = "NewResponseBuffer (exSession {MessageTags, MaxLine})"
  let ?ps = "[\<lparr>Message = ''hello '', Msgid = ''id1''\<rparr>, \<lparr>Message = ''world'', Msgid = ''id2''\<rparr>]"
  have live: "\<not> finalized ?rb" "\<not> finalized ?rbm"
    by (simp_all add: NewResponseBuffer_def)
  have caps: "\<not> Has (session ?rb) MaxLine" "Has (session ?rbm) MaxLine"
      "Has (session ?rb) MessageTags" "Has (session ?rbm) MessageTags"
    by (simp_all add: NewResponseBuffer_def Has_def exSession_def)
  have nb: "nestedBatches ?rb = []" "nestedBatches ?rbm = []" "messages ?rb = []" "messages ?rbm = []"
    by (simp_all add: NewResponseBuffer_def)
  have wr: "Wrapped (exSplit 3) = Some ?ps" "Message (exSplit 3) = ''hello world''"
      "Msgid (exSplit 3) = ''whole''"
    by (simp_all add: exSplit_def)
  show ?thesis
    using AddSplitMessageFromClient_queue
        [OF live(1), where message = "exSplit 3" and pairs = ?ps
           and nickmask = "''bob!b@host''" and account = "''bob''" and tgs = Map.empty
           and command = "''PRIVMSG''" and tgt = "''#chan''" and w = exWorld]
      AddSplitMessageFromClient_queue
        [OF live(2), where message = "exSplit 3" and pairs = "[]"
           and nickmask = "''bob!b@host''" and account = "''bob''" and tgs = Map.empty
           and command = "''PRIVMSG''" and tgt = "''#chan''" and w = exWorld]
    by (simp add: live caps nb wr clientMessage_fields clientMessage_msgid)
qed

section \<open>The top-level batch is opened once\<close>

text \<open>
  Claim C3. \<^verbatim>\<open>sendBatchStart\<close> on a buffer whose batch identifier is set returns the
  buffer and the world unchanged: the identifier stays and nothing is handed to the session;
  calling it twice is calling it once (the generator returning a non-empty token). Hence,
  over any sequence of calls: once the identifier is set it never changes and no further
  batch-open framing is sent; and starting from a buffer without top-level batch, with a
  generator of non-empty tokens, the number of batch-open framings sent is one if the
  identifier was set and zero if it was not.
\<close>

theorem top_level_batch_opened_once:
  "(batchID rb \<noteq> [] \<longrightarrow> sendBatchStart rb blocking w = (rb, w)) \<and>
   (token_source w (tokens_drawn w) \<noteq> [] \<longrightarrow>
      sendBatchStart (fst (sendBatchStart rb blocking w)) blocking2 (snd (sendBatchStart rb blocking w))
        = sendBatchStart rb blocking w) \<and>
   (batchID rb \<noteq> [] \<longrightarrow>
      batchID (fst (run ops (rb, w))) = batchID rb \<and> opens (snd (run ops (rb, w))) = opens w) \<and>
   (batchID rb = [] \<and> (\<forall>n. token_source w n \<noteq> []) \<longrightarrow>
      opens (snd (run ops (rb, w))) =
        opens w + (if batchID (fst (run ops (rb, w))) = [] then 0 else 1))"
proof -
  have 1: "batchID rb \<noteq> [] \<longrightarrow> sendBatchStart rb blocking w = (rb, w)"
    by (simp add: sendBatchStart_def)
  have 2: "token_source w (tokens_drawn w) \<noteq> [] \<longrightarrow>
      sendBatchStart (fst (sendBatchStart rb blocking w)) blocking2 (snd (sendBatchStart rb blocking w))
        = sendBatchStart rb blocking w"
    by (simp add: sendBatchStart_eq)
  have 3: "batchID rb \<noteq> [] \<longrightarrow>
      batchID (fst (run ops (rb, w))) = batchID rb \<and> opens (snd (run ops (rb, w))) = opens w"
    using run_batch_open [of "(rb, w)" ops] by simp
  have 4: "batchID rb = [] \<and> (\<forall>n. token_source w n \<noteq> []) \<longrightarrow>
      opens (snd (run ops (rb, w))) =
        opens w + (if batchID (fst (run ops (rb, w))) = [] then 0 else 1)"
    using run_batch_closed [of "(rb, w)" ops] by simp
  from 1 2 3 4 show ?thesis by blast
qed

theorem top_level_batch_opened_once_witness:
  "batchID (NewResponseBuffer (exSession {LabeledResponse})) = [] \<and>
   (\<forall>n. token_source exWorld n \<noteq> []) \<and>
   batchID (fst (run [OpSetLabel ''abc'', OpFlush True, OpForceBatchStart ''chathistory'' True,
                      OpAdd Map.empty ''bob!b@host'' ''PRIVMSG'' [''#chan'', ''hi''], OpSend True]
                   (NewResponseBuffer (exSession {LabeledResponse}), exWorld))) = ''tok'' \<and>
   opens (snd (run [OpSetLabel ''abc'', OpFlush True, OpForceBatchStart ''chathistory'' True,
                    OpAdd Map.empty ''bob!b@host'' ''PRIVMSG'' [''#chan'', ''hi''], OpSend True]
                   (NewResponseBuffer (exSession {LabeledResponse}), exWorld))) = 1"
proof -
  let ?ops = "[OpSetLabel ''abc'', OpFlush True, OpForceBatchStart ''chathistory'' True,
               OpAdd Map.empty ''bob!b@host'' ''PRIVMSG'' [''#chan'', ''hi''], OpSend True]"
  let ?rb = "NewResponseBuffer (exSession {LabeledResponse})"
  have a: "batchID ?rb = []" by (simp add: NewResponseBuffer_def)
  have b: "\<forall>n. token_source exWorld n \<noteq> []" by (simp add: exWorld_def)
  have c: "batchID (fst (run ?ops (?rb, exWorld))) = ''tok''"
    by (simp add: eval_defs)
  have d: "opens exWorld = 0" by (simp add: exWorld_def opens_def)
  show ?thesis
    using top_level_batch_opened_once [of ?rb True exWorld True ?ops] a b c d
    by simp
qed

section \<open>A non-terminal flush leaves the batch open\<close>



section \<open>The label on a forced batch\<close>

text \<open>
  Claim C7 says that the label tag is attached only when the session advertises the
  request-correlation capability, on every path, \<^verbatim>\<open>ForceBatchStart\<close> included.
  \<^verbatim>\<open>flushInternal\<close> checks the capability before it labels anything, but
  \<^verbatim>\<open>sendBatchStart\<close> tests only that the label is not empty, and
  \<^verbatim>\<open>ForceBatchStart\<close> calls it without the check: for a session without the
  capability and a buffer with label \<^verbatim>\<open>abc\<close>, the batch-open framing is sent with
  the label tag.
\<close>

theorem forced_batch_start_labels_without_capability:
  "\<not> Has (exSession {}) LabeledResponse \<and>
   map (\<lambda>(site, m, blocking). (site, Command m, Params m, tags m LabelTagName))
     (raw_sent (snd (ForceBatchStart ((NewResponseBuffer (exSession {}))\<lparr>Label := ''abc''\<rparr>)
        ''chathistory'' True exWorld))) =
     [(SiteBatchStart, ''BATCH'', [''+tok'', ''chathistory''], Some ''abc'')]"
  by (simp add: eval_defs)

section \<open>The three ways a terminal flush answers a labeled request\<close>

text \<open>
  Claim C1 says, for a terminal flush with a label and the capability: no message and no
  batch, one labeled \<^verbatim>\<open>ACK\<close>; one message and no batch, that message labeled and no
  framing; two or more messages, a batch-open framing, every message tagged with the batch
  identifier, a batch-close. The last part differs in the code in two ways. A message
  queued inside a nested batch already has a batch tag and keeps it: of the three messages
  of the first buffer below, the one inside the history batch is sent with the nested
  identifier \<^verbatim>\<open>tok\<close>, not with the identifier \<^verbatim>\<open>tokx\<close> of the top-level batch.
  And when an earlier \<^verbatim>\<open>Flush\<close> has opened the batch, \<^verbatim>\<open>Send\<close> opens none: for
  the second buffer it adds the two messages and the batch-close to the one batch-open
  framing sent before.
\<close>

theorem Send_keeps_nested_tag_and_open_batch:
  "Label (fst exNested) = ''abc'' \<and> Has (session (fst exNested)) LabeledResponse \<and>
   \<not> finalized (fst exNested) \<and> length (messages (fst exNested)) = 3 \<and>
   raw_sent (snd exNested) = [] \<and>
   batchID (fst (snd (Send (fst exNested) True (snd exNested)))) = ''tokx'' \<and>
   map (\<lambda>(site, m, blocking). (site, Command m, tags m ''batch''))
     (raw_sent (snd (snd (Send (fst exNested) True (snd exNested))))) =
     [(SiteBatchStart, ''BATCH'', None), (SiteQueued, ''BATCH'', Some ''tokx''),
      (SiteQueued, ''PRIVMSG'', Some ''tok''), (SiteQueued, ''BATCH'', Some ''tokx''),
      (SiteBatchEnd, ''BATCH'', None)] \<and>
   Label (fst exFlushed) = ''abc'' \<and> Has (session (fst exFlushed)) LabeledResponse \<and>
   \<not> finalized (fst exFlushed) \<and> length (messages (fst exFlushed)) = 2 \<and>
   map fst (raw_sent (snd exFlushed)) = [SiteBatchStart] \<and>
   map fst (raw_sent (snd (snd (Send (fst exFlushed) True (snd exFlushed))))) =
     [SiteBatchStart, SiteQueued, SiteQueued, SiteBatchEnd]"
  by (simp add: exNested_def exFlushed_def eval_defs2)

text \<open>
  Claim C1, as amended. For a terminal flush of a buffer that is not finalized, with a label
  and a session that advertises labeled-response: with no queued message and no top-level
  batch open, exactly one message is handed to the session, the \<^verbatim>\<open>ACK\<close> with the
  label tag; with exactly one queued message and no top-level batch open, exactly that
  message is handed over, with the label tag, and no framing; with two or more queued
  messages (the batch identifier being non-empty), the batch-open framing with the label
  tag is sent unless the batch was open already, then every queued message in order, then
  the batch-close framing; a queued message without batch tag is sent with the identifier
  of the top-level batch, one with a batch tag (of a nested batch) keeps it, and the flush
  leaves the label tag of every queued message as it was.
\<close>

theorem Send_label_degradation:
  assumes "\<not> finalized rb" and "Has (session rb) LabeledResponse" and "Label rb \<noteq> []"
  shows
    "(messages rb = [] \<and> batchID rb = [] \<longrightarrow>
        raw_sent (snd (snd (Send rb blocking w))) =
          raw_sent w @
            [(SiteAck,
              setTimeTag (session rb)
                (SetTag (MakeMessage Map.empty (server_name (client (session rb))) ''ACK'' [])
                   LabelTagName (Label rb)) 0,
              blocking)] \<and>
        tags (setTimeTag (session rb)
                (SetTag (MakeMessage Map.empty (server_name (client (session rb))) ''ACK'' [])
                   LabelTagName (Label rb)) 0) LabelTagName = Some (Label rb)) \<and>
     (messages rb = [m] \<and> batchID rb = [] \<longrightarrow>
        raw_sent (snd (snd (Send rb blocking w))) =
          raw_sent w @
            [(SiteQueued, setTimeTag (session rb) (SetTag m LabelTagName (Label rb)) 0, blocking)] \<and>
        tags (setTimeTag (session rb) (SetTag m LabelTagName (Label rb)) 0) LabelTagName =
          Some (Label rb)) \<and>
     (2 \<le> length (messages rb) \<and> batchID (fst (snd (Send rb blocking w))) \<noteq> [] \<longrightarrow>
        raw_sent (snd (snd (Send rb blocking w))) =
          raw_sent w @
            (if batchID rb = []
             then [(SiteBatchStart,
                    SetTag (MakeMessage Map.empty (server_name (target rb)) ''BATCH''
                              [''+'' @ batchID (fst (snd (Send rb blocking w))), batchType rb])
                      LabelTagName (Label rb),
                    blocking)]
             else []) @
            map (\<lambda>m. (SiteQueued,
                       prepareQueued (rb\<lparr>batchID := batchID (fst (snd (Send rb blocking w)))\<rparr>) m,
                       blocking))
              (messages rb) @
            [(SiteBatchEnd,
              MakeMessage Map.empty (server_name (target rb)) ''BATCH''
                [''-'' @ batchID (fst (snd (Send rb blocking w)))],
              blocking)] \<and>
        (\<forall>m. tags (prepareQueued (rb\<lparr>batchID := batchID (fst (snd (Send rb blocking w)))\<rparr>) m)
                ''batch'' =
              (case tags m ''batch'' of
                 None \<Rightarrow> Some (batchID (fst (snd (Send rb blocking w))))
               | Some nested \<Rightarrow> Some nested)) \<and>
        (\<forall>m. tags (prepareQueued (rb\<lparr>batchID := batchID (fst (snd (Send rb blocking w)))\<rparr>) m)
                LabelTagName = tags m LabelTagName))"
proof -
  have lab: "tags (setTimeTag (session rb) (SetTag x LabelTagName (Label rb)) 0) LabelTagName =
      Some (Label rb)" for x
    by (simp add: setTimeTag_tags SetTag_simps LabelTagName_def)
  have 1: "messages rb = [] \<and> batchID rb = [] \<longrightarrow>
        raw_sent (snd (snd (Send rb blocking w))) =
          raw_sent w @
            [(SiteAck,
              setTimeTag (session rb)
                (SetTag (MakeMessage Map.empty (server_name (client (session rb))) ''ACK'' [])
                   LabelTagName (Label rb)) 0,
              blocking)]"
    using assms by (simp add: Send_ack)
  have 2: "messages rb = [m] \<and> batchID rb = [] \<longrightarrow>
        raw_sent (snd (snd (Send rb blocking w))) =
          raw_sent w @
            [(SiteQueued, setTimeTag (session rb) (SetTag m LabelTagName (Label rb)) 0, blocking)]"
    using assms by (simp add: Send_single)
  have 3: "raw_sent (snd (snd (Send rb blocking w))) =
          raw_sent w @
            (if batchID rb = []
             then [(SiteBatchStart,
                    SetTag (MakeMessage Map.empty (server_name (target rb)) ''BATCH''
                              [''+'' @ batchID (fst (snd (Send rb blocking w))), batchType rb])
                      LabelTagName (Label rb),
                    blocking)]
             else []) @
            map (\<lambda>m. (SiteQueued,
                       prepareQueued (rb\<lparr>batchID := batchID (fst (snd (Send rb blocking w)))\<rparr>) m,
                       blocking))
              (messages rb) @
            [(SiteBatchEnd,
              MakeMessage Map.empty (server_name (target rb)) ''BATCH''
                [''-'' @ batchID (fst (snd (Send rb blocking w)))],
              blocking)]"
    if "2 \<le> length (messages rb)" "batchID (fst (snd (Send rb blocking w))) \<noteq> []"
    using that assms by (simp add: Send_batch prepareQueued_cong split: if_splits)
  have 4: "tags (prepareQueued (rb\<lparr>batchID := batchID (fst (snd (Send rb blocking w)))\<rparr>) x)
                ''batch'' =
              (case tags x ''batch'' of
                 None \<Rightarrow> Some (batchID (fst (snd (Send rb blocking w))))
               | Some nested \<Rightarrow> Some nested)"
    if "batchID (fst (snd (Send rb blocking w))) \<noteq> []" for x
    using that by (simp add: prepareQueued_batch split: option.splits)
  from 1 2 3 4 lab prepareQueued_label show ?thesis by blast
qed

theorem Send_label_degradation_witness:
  "\<not> finalized ((NewResponseBuffer (exSession {LabeledResponse}))\<lparr>Label := ''abc''\<rparr>) \<and>
   Has (session ((NewResponseBuffer (exSession {LabeledResponse}))\<lparr>Label := ''abc''\<rparr>))
     LabeledResponse \<and>
   map (\<lambda>(site, m, blocking). (site, Command m, tags m ''batch'', tags m LabelTagName))
     (raw_sent (snd (snd (Send
        ((NewResponseBuffer (exSession {LabeledResponse}))\<lparr>Label := ''abc''\<rparr>) True exWorld)))) =
     [(SiteAck, ''ACK'', None, Some ''abc'')] \<and>
   map (\<lambda>(site, m, blocking). (site, Command m, tags m ''batch'', tags m LabelTagName))
     (raw_sent (snd (snd (Send
        ((NewResponseBuffer (exSession {LabeledResponse}))
           \<lparr>Label := ''abc'', messages := [exPrivmsg ''hi'']\<rparr>) True exWorld)))) =
     [(SiteQueued, ''PRIVMSG'', None, Some ''abc'')] \<and>
   map (\<lambda>(site, m, blocking). (site, Command m, tags m ''batch'', tags m LabelTagName))
     (raw_sent (snd (snd (Send
        ((NewResponseBuffer (exSession {LabeledResponse}))
           \<lparr>Label := ''abc'', messages := [exPrivmsg ''hi'', exPrivmsg ''there'']\<rparr>)
        True exWorld)))) =
     [(SiteBatchStart, ''BATCH'', None, Some ''abc''), (SiteQueued, ''PRIVMSG'', Some ''tok'', None),
      (SiteQueued, ''PRIVMSG'', Some ''tok'', None), (SiteBatchEnd, ''BATCH'', None, None)]"
proof -
  let ?rb0 = "(NewResponseBuffer (exSession {LabeledResponse}))\<lparr>Label := ''abc''\<rparr>"
  let ?rb1 = "(NewResponseBuffer (exSession {LabeledResponse}))
                \<lparr>Label := ''abc'', messages := [exPrivmsg ''hi'']\<rparr>"
  let ?rb2 = "(NewResponseBuffer (exSession {LabeledResponse}))
                \<lparr>Label := ''abc'', messages := [exPrivmsg ''hi'', exPrivmsg ''there'']\<rparr>"
  have live: "\<not> finalized ?rb0" "\<not> finalized ?rb1" "\<not> finalized ?rb2"
    by (simp_all add: NewResponseBuffer_def)
  have cap: "Has (session ?rb0) LabeledResponse" "Has (session ?rb1) LabeledResponse"
      "Has (session ?rb2) LabeledResponse"
    by (simp_all add: NewResponseBuffer_def exSession_def Has_def)
  have cap0: "Has (session (NewResponseBuffer (exSession {LabeledResponse}))) LabeledResponse"
    by (simp add: NewResponseBuffer_def exSession_def Has_def)
  have lab: "Label ?rb0 \<noteq> []" "Label ?rb1 \<noteq> []" "Label ?rb2 \<noteq> []"
    by simp_all
  have st: "messages ?rb0 = []" "batchID ?rb0 = []" "messages ?rb1 = [exPrivmsg ''hi'']"
      "batchID ?rb1 = []" "messages ?rb2 = [exPrivmsg ''hi'', exPrivmsg ''there'']"
      "batchID ?rb2 = []" "Label ?rb0 = ''abc''" "Label ?rb1 = ''abc''" "Label ?rb2 = ''abc''"
      "raw_sent exWorld = []"
    by (simp_all add: NewResponseBuffer_def exWorld_def)
  have bid: "batchID (fst (snd (Send ?rb2 True exWorld))) = ''tok''"
    by (simp add: eval_defs)
  have msg: "tags (exPrivmsg x) = Map.empty" "Command (exPrivmsg x) = ''PRIVMSG''" for x
    by (simp_all add: exPrivmsg_def MakeMessage_def)
  show ?thesis
    using Send_label_degradation [OF live(1) cap(1) lab(1), where m = "exPrivmsg ''hi''" and blocking = True and w = exWorld]
      Send_label_degradation [OF live(2) cap(2) lab(2), where m = "exPrivmsg ''hi''" and blocking = True and w = exWorld]
      Send_label_degradation [OF live(3) cap(3) lab(3), where m = "exPrivmsg ''hi''" and blocking = True and w = exWorld]
    by (simp add: live cap0 st bid msg setTimeTag_tags setTimeTag_fields SetTag_simps
        MakeMessage_simps prepareQueued_fields LabelTagName_def)
qed

end
